theory Spec2Isabelle
  imports Main
begin

section \<open>enable\_ssl.c: automatic TLS bootstrap of a node\<close>

text \<open>
  The file \<^verbatim>\<open>src/backend/distributed/utils/enable_ssl.c\<close> is embedded function by
  function. Its functions read and write process globals, the file system, the server
  configuration and OpenSSL objects; all of that is one explicit \<open>world\<close> record that
  every function takes and returns. \<^verbatim>\<open>ereport(ERROR, ...)\<close> does not return to its
  caller (it unwinds the transaction), so a function that may raise returns
  \<open>pg_error + 'a\<close> with \<open>Inl\<close> for the raised error, next to the world reached when
  the error was raised.

  What OpenSSL, libc and the file system answer is not decided by this file. A call
  whose result the source tests takes its answer from the \<open>env\<close> record of the
  invocation, or from the files of the world (whether a path can be opened for writing,
  whether a file holds a certificate). So do the two \<^verbatim>\<open>fclose\<close> calls, which write
  the buffered PEM text to the file and whose result the source discards, and the two
  readings of the clock, and the calls that set the fields of the certificate: each of
  them reports failure through its result, the source discards that result, and a call
  that failed has left the field as it was. \<^verbatim>\<open>BN_new\<close> and \<^verbatim>\<open>RSA_new\<close>, whose
  result the source uses without a test, return an object.

  The source is compiled for one build; \<open>build\<close> holds the two preprocessor symbols
  that select its branches. With \<^verbatim>\<open>HAVE_OPENSSL_INIT_SSL\<close> or without it the library
  is initialised, so that symbol is not modelled.
\<close>

subsection \<open>Constants of the source\<close>

definition ENABLE_SSL_QUERY :: string where
  "ENABLE_SSL_QUERY = ''ALTER SYSTEM SET ssl TO on;''"

definition RESET_CITUS_NODE_CONNINFO :: string where
  "RESET_CITUS_NODE_CONNINFO = ''ALTER SYSTEM SET citus.node_conninfo TO 'sslmode=prefer';''"

definition CITUS_AUTO_SSL_COMMON_NAME :: string where
  "CITUS_AUTO_SSL_COMMON_NAME = ''citus-auto-ssl''"

definition X509_SUBJECT_COMMON_NAME :: string where
  "X509_SUBJECT_COMMON_NAME = ''CN''"

definition RSA_F4 :: nat where
  \<comment> \<open>\<^verbatim>\<open>openssl/rsa.h\<close>: \<^verbatim>\<open>#define RSA_F4 0x10001L\<close>\<close>
  "RSA_F4 = 65537"

subsection \<open>Data\<close>

type_synonym path = string

datatype elevel = LOG | WARNING | ERROR

datatype pg_error = PgError string

text \<open>The build: the preprocessor symbols the source branches on.\<close>

record build =
  USE_SSL :: bool
  PG_VERSION_NUM :: nat

text \<open>
  An RSA key pair is its size, its public exponent and the secret material that the
  generator drew (\<open>rsa_secret\<close> names the primes). The public part is what a
  certificate carries; a signature made with a key names that key's public part.
\<close>

record rsa_key =
  rsa_bits :: nat
  rsa_e :: nat
  rsa_secret :: nat

record rsa_public =
  pub_bits :: nat
  pub_e :: nat
  pub_of :: nat

definition public_part :: "rsa_key \<Rightarrow> rsa_public" where
  "public_part k = \<lparr>pub_bits = rsa_bits k, pub_e = rsa_e k, pub_of = rsa_secret k\<rparr>"

datatype digest = MD5 | SHA1 | SHA256 | SHA512

text \<open>The signed part of a certificate (OpenSSL's \<^verbatim>\<open>cert_info\<close>) and the certificate.\<close>

record x509_cinf =
  serialNumber :: int
  notBefore :: "int option"
  notAfter :: "int option"
  pubkey :: "rsa_public option"
  subject :: "(string \<times> string) list"
  issuer :: "(string \<times> string) list"

record x509_sig =
  sig_md :: digest
  sig_key :: rsa_public
  sig_over :: x509_cinf

record x509 =
  cert_info :: x509_cinf
  signature :: "x509_sig option"

definition X509_verify :: "x509 \<Rightarrow> rsa_public \<Rightarrow> bool" where
  "X509_verify c pk =
     (case signature c of
        None \<Rightarrow> False
      | Some s \<Rightarrow> sig_key s = pk \<and> sig_over s = cert_info c)"

text \<open>Pointers to OpenSSL objects: the address and what the object holds.\<close>

datatype kind = K_SSL_CTX | K_EVP_PKEY | K_BIGNUM | K_RSA | K_X509

datatype free_fn = SSL_CTX_free | EVP_PKEY_free | BN_free | X509_free

record bignum =
  bn_addr :: nat
  bn_value :: nat

record rsa_obj =
  rsa_addr :: nat
  rsa_key :: "rsa_key option"

record evp_pkey =
  pkey_addr :: nat
  pkey_rsa :: "rsa_obj option"

record x509_obj =
  x509_addr :: nat
  x509_val :: x509

text \<open>
  A file holds an unencrypted PEM private key, a PEM certificate, or other bytes
  (\<open>Raw []\<close> is the empty file). The trace records the operations on files in the
  order they happen; \<open>Fwrite\<close> is the moment the content reaches the file.
\<close>

datatype file_content = PEM_PrivateKey rsa_key | PEM_X509 x509 | Raw string

datatype io_event = Fopen path | Fwrite path file_content | Fclose path

text \<open>
  The world: the settings the source reads (\<^verbatim>\<open>EnableSSL\<close>, the sslmode of
  \<^verbatim>\<open>citus.node_conninfo\<close>, \<^verbatim>\<open>ssl_key_file\<close>, \<^verbatim>\<open>ssl_cert_file\<close>); the files and
  which paths can be opened for writing; the smallest RSA key that the security level
  of the TLS library admits in a certificate; the stored configuration that
  \<^verbatim>\<open>ALTER SYSTEM\<close> writes; the number of reload requests sent to the server
  (\<^verbatim>\<open>pg_reload_conf\<close>) and of re-readings of the configuration by this backend
  (\<^verbatim>\<open>ProcessConfigFile\<close>); the server log; and the OpenSSL objects: those allocated,
  the callbacks registered on the current memory context (newest first), which RSA
  structure was assigned to which key, and the objects released so far.
\<close>

record world =
  EnableSSL :: bool
  conn_sslmode :: string
  ssl_key_file :: path
  ssl_cert_file :: path
  files :: "path \<rightharpoonup> file_content"
  writable :: "path \<Rightarrow> bool"
  min_rsa_bits :: nat
  io_trace :: "io_event list"
  auto_conf :: "string \<rightharpoonup> string"
  reload_requests :: nat
  config_processed :: nat
  server_log :: "(elevel \<times> string) list"
  openssl_initialized :: bool
  next_addr :: nat
  allocated :: "(nat \<times> kind) list"
  callbacks :: "(free_fn \<times> nat) list"
  assigned :: "(nat \<times> nat) list"
  released :: "nat list"

text \<open>What the environment answers during one invocation.\<close>

record env =
  ssl_ctx_new_ok :: bool
  evp_pkey_new_ok :: bool
  bn_set_word_ok :: bool
  rsa_generate_ok :: bool
  rsa_fresh :: nat
  evp_assign_ok :: bool
  x509_new_ok :: bool
  asn1_integer_set_ok :: bool
  gmtime_adj_notBefore_ok :: bool
  clock_notBefore :: int
  gmtime_adj_notAfter_ok :: bool
  clock_notAfter :: int
  x509_set_pubkey_ok :: bool
  x509_name_add_entry_ok :: bool
  x509_set_issuer_name_ok :: bool
  x509_sign_ok :: bool
  pem_key_ok :: bool
  key_fclose_ok :: bool
  pem_cert_ok :: bool
  cert_fclose_ok :: bool

subsection \<open>libc and PostgreSQL\<close>

text \<open>
  The bytes at a \<^verbatim>\<open>char *\<close> are a \<open>string\<close>; the C string they hold ends before
  the first NUL byte (or at the end of the list, where the terminator stands).
  \<open>strcmp\<close> compares two C strings as unsigned bytes and returns the difference at
  the first position where they differ.
\<close>

definition NUL :: char where
  "NUL = CHR 0x00"

definition c_str :: "string \<Rightarrow> string" where
  "c_str s = takeWhile (\<lambda>c. c \<noteq> NUL) s"

fun strcmp :: "string \<Rightarrow> string \<Rightarrow> int" where
  "strcmp [] [] = 0"
| "strcmp [] (b # bs) = - int (of_char b)"
| "strcmp (a # as) [] = int (of_char a)"
| "strcmp (a # as) (b # bs) =
     (if a \<noteq> b then int (of_char a) - int (of_char b)
      else if a = NUL then 0 else strcmp as bs)"

definition elog :: "elevel \<Rightarrow> string \<Rightarrow> world \<Rightarrow> world" where
  "elog lvl msg w = w\<lparr>server_log := server_log w @ [(lvl, msg)]\<rparr>"

definition ereport_ERROR :: "string \<Rightarrow> world \<Rightarrow> (pg_error + 'a) \<times> world" where
  "ereport_ERROR msg w = (Inl (PgError msg), elog ERROR msg w)"

definition GetConnParam_sslmode :: "world \<Rightarrow> string" where
  \<comment> \<open>Modelled from the spec: \<^verbatim>\<open>GetConnParam\<close> (connection\_management) is the
      connection-parameter reader, which "exposes the current value of the
      outward-connection security-mode setting as a string".\<close>
  "GetConnParam_sslmode w = conn_sslmode w"

text \<open>
  The configuration store. \<^verbatim>\<open>ParseTreeNode\<close> is given the two statements of this
  file only; the parser below reads that one form,
  \<^verbatim>\<open>ALTER SYSTEM SET name TO value;\<close>, and \<^verbatim>\<open>AlterSystemSetConfigFile\<close> stores
  the setting.
\<close>

datatype AlterSystemStmt = AlterSystemSet string string

definition unquote :: "string \<Rightarrow> string" where
  "unquote s =
     (if 2 \<le> length s \<and> hd s = CHR 0x27 \<and> last s = CHR 0x27
      then butlast (tl s) else s)"

definition ParseTreeNode :: "string \<Rightarrow> AlterSystemStmt option" where
  \<comment> \<open>Modelled from the spec: \<^verbatim>\<open>ParseTreeNode\<close> (worker\_protocol) turns the text of a
      "well-formed change request" into the statement handed to the configuration
      store.\<close>
  "ParseTreeNode q =
     (let kw = ''ALTER SYSTEM SET ''
      in if take (length kw) q = kw \<and> q \<noteq> [] \<and> last q = CHR '';''
         then let body = butlast (drop (length kw) q);
                  name = takeWhile (\<lambda>c. c \<noteq> CHR '' '') body;
                  rest = drop (length name) body
              in if take 4 rest = '' TO ''
                 then Some (AlterSystemSet name (unquote (drop 4 rest)))
                 else None
         else None)"

definition AlterSystemSetConfigFile :: "AlterSystemStmt \<Rightarrow> world \<Rightarrow> world" where
  \<comment> \<open>Modelled from the spec: the configuration store collaborator "accepts opaque
      configuration-change statements and persists them durably".\<close>
  "AlterSystemSetConfigFile stmt w =
     (case stmt of AlterSystemSet name v \<Rightarrow> w\<lparr>auto_conf := (auto_conf w)(name \<mapsto> v)\<rparr>)"

definition alter_system :: "string \<Rightarrow> world \<Rightarrow> (pg_error + unit) \<times> world" where
  \<comment> \<open>\<^verbatim>\<open>AlterSystemSetConfigFile((AlterSystemStmt *) ParseTreeNode(query))\<close>; a text
      that does not parse is a syntax error.\<close>
  "alter_system query w =
     (case ParseTreeNode query of
        None \<Rightarrow> ereport_ERROR ''syntax error'' w
      | Some stmt \<Rightarrow> (Inr (), AlterSystemSetConfigFile stmt w))"

datatype datum = Datum_bool bool

definition pg_reload_conf :: "world \<Rightarrow> (datum \<times> bool) \<times> world" where
  \<comment> \<open>Modelled from the spec: the configuration reload collaborator; one call is one
      reload request to the server. The second component is \<^verbatim>\<open>fcinfo.isnull\<close>.\<close>
  "pg_reload_conf w = ((Datum_bool True, False), w\<lparr>reload_requests := Suc (reload_requests w)\<rparr>)"

definition ProcessConfigFile_SIGHUP :: "world \<Rightarrow> world" where
  \<comment> \<open>\<^verbatim>\<open>ProcessConfigFile(PGC_SIGHUP)\<close>: this backend reads the configuration again.\<close>
  "ProcessConfigFile_SIGHUP w = w\<lparr>config_processed := Suc (config_processed w)\<rparr>"

definition InvalidOid :: nat where
  "InvalidOid = 0"

definition DirectFunctionCall0Coll ::
    "(world \<Rightarrow> (datum \<times> bool) \<times> world) \<Rightarrow> nat \<Rightarrow> world \<Rightarrow> (pg_error + datum) \<times> world" where
  \<comment> \<open>The function is called without arguments; the collation goes into the call
      information only.\<close>
  "DirectFunctionCall0Coll func collation w =
     (case func w of
        ((result, isnull), w1) \<Rightarrow>
          if isnull then ereport_ERROR ''function %p returned NULL'' w1
          else (Inr result, w1))"

definition DirectFunctionCall0 ::
    "(world \<Rightarrow> (datum \<times> bool) \<times> world) \<Rightarrow> world \<Rightarrow> (pg_error + datum) \<times> world" where
  "DirectFunctionCall0 func w = DirectFunctionCall0Coll func InvalidOid w"

text \<open>
  The memory context: a registered callback is put at the head of the context's list,
  and a reset of the context (at the end of the transaction, committed or aborted)
  calls the callbacks from the head.
\<close>

definition MemoryContextRegisterResetCallback :: "free_fn \<times> nat \<Rightarrow> world \<Rightarrow> world" where
  "MemoryContextRegisterResetCallback cb w = w\<lparr>callbacks := cb # callbacks w\<rparr>"

definition call_free :: "free_fn \<times> nat \<Rightarrow> world \<Rightarrow> world" where
  \<comment> \<open>\<^verbatim>\<open>EVP_PKEY_free\<close> also frees the RSA structure assigned to the key.\<close>
  "call_free cb w =
     (case cb of
        (EVP_PKEY_free, a) \<Rightarrow>
          w\<lparr>released := released w @ [a] @ map snd (filter (\<lambda>pr. fst pr = a) (assigned w))\<rparr>
      | (_, a) \<Rightarrow> w\<lparr>released := released w @ [a]\<rparr>)"

definition MemoryContextReset :: "world \<Rightarrow> world" where
  "MemoryContextReset w = fold call_free (callbacks w) (w\<lparr>callbacks := []\<rparr>)"

definition leaked :: "world \<Rightarrow> nat list" where
  "leaked w = filter (\<lambda>a. count_list (released w) a = 0) (map fst (allocated w))"

subsection \<open>OpenSSL\<close>

definition new_object :: "kind \<Rightarrow> world \<Rightarrow> nat \<times> world" where
  "new_object k w =
     (next_addr w,
      w\<lparr>next_addr := Suc (next_addr w), allocated := allocated w @ [(next_addr w, k)]\<rparr>)"

definition OPENSSL_init_ssl :: "world \<Rightarrow> world" where
  "OPENSSL_init_ssl w = w\<lparr>openssl_initialized := True\<rparr>"

definition SSL_CTX_new :: "env \<Rightarrow> world \<Rightarrow> nat option \<times> world" where
  "SSL_CTX_new env w =
     (if ssl_ctx_new_ok env
      then (case new_object K_SSL_CTX w of (a, w1) \<Rightarrow> (Some a, w1))
      else (None, w))"

definition SSL_CTX_use_certificate_chain_file :: "path \<Rightarrow> world \<Rightarrow> int" where
  \<comment> \<open>1 when the file holds a certificate that parses, carries a public key and passes
      the security level of the context (its key is not smaller than the level
      admits); 0 otherwise.\<close>
  "SSL_CTX_use_certificate_chain_file p w =
     (case files w p of
        Some (PEM_X509 c) \<Rightarrow>
          (case pubkey (cert_info c) of
             Some pk \<Rightarrow> if min_rsa_bits w \<le> pub_bits pk then 1 else 0
           | None \<Rightarrow> 0)
      | _ \<Rightarrow> 0)"

definition EVP_PKEY_new :: "env \<Rightarrow> world \<Rightarrow> evp_pkey option \<times> world" where
  "EVP_PKEY_new env w =
     (if evp_pkey_new_ok env
      then (case new_object K_EVP_PKEY w of
              (a, w1) \<Rightarrow> (Some \<lparr>pkey_addr = a, pkey_rsa = None\<rparr>, w1))
      else (None, w))"

definition BN_new :: "world \<Rightarrow> bignum \<times> world" where
  "BN_new w = (case new_object K_BIGNUM w of (a, w1) \<Rightarrow> (\<lparr>bn_addr = a, bn_value = 0\<rparr>, w1))"

definition BN_set_word :: "env \<Rightarrow> bignum \<Rightarrow> nat \<Rightarrow> int \<times> bignum" where
  "BN_set_word env bn v = (if bn_set_word_ok env then (1, bn\<lparr>bn_value := v\<rparr>) else (0, bn))"

definition RSA_new :: "world \<Rightarrow> rsa_obj \<times> world" where
  "RSA_new w = (case new_object K_RSA w of (a, w1) \<Rightarrow> (\<lparr>rsa_addr = a, rsa_key = None\<rparr>, w1))"

definition RSA_generate_key_ex :: "env \<Rightarrow> rsa_obj \<Rightarrow> nat \<Rightarrow> bignum \<Rightarrow> int \<times> rsa_obj" where
  \<comment> \<open>On success the structure holds a fresh key of the size and public exponent asked for.\<close>
  "RSA_generate_key_ex env rsa bits e =
     (if rsa_generate_ok env
      then (1, rsa\<lparr>rsa_key :=
                 Some \<lparr>rsa_bits = bits, rsa_e = bn_value e, rsa_secret = rsa_fresh env\<rparr>\<rparr>)
      else (0, rsa))"

definition EVP_PKEY_assign_RSA ::
    "env \<Rightarrow> evp_pkey \<Rightarrow> rsa_obj \<Rightarrow> world \<Rightarrow> (bool \<times> evp_pkey) \<times> world" where
  "EVP_PKEY_assign_RSA env pkey rsa w =
     (if evp_assign_ok env
      then ((True, pkey\<lparr>pkey_rsa := Some rsa\<rparr>),
            w\<lparr>assigned := (pkey_addr pkey, rsa_addr rsa) # assigned w\<rparr>)
      else ((False, pkey), w))"

definition pkey_key :: "evp_pkey \<Rightarrow> rsa_key option" where
  "pkey_key pkey = (case pkey_rsa pkey of None \<Rightarrow> None | Some rsa \<Rightarrow> rsa_key rsa)"

text \<open>
  A fresh certificate has nothing set. The setters change the signed part, or fail and
  change nothing; the subject name is reached through a pointer into the certificate,
  so adding an entry to it changes the certificate.
\<close>

definition X509_new :: "env \<Rightarrow> world \<Rightarrow> x509_obj option \<times> world" where
  "X509_new env w =
     (if x509_new_ok env
      then (case new_object K_X509 w of
              (a, w1) \<Rightarrow>
                (Some \<lparr>x509_addr = a,
                       x509_val = \<lparr>cert_info = \<lparr>serialNumber = 0, notBefore = None,
                                                 notAfter = None, pubkey = None,
                                                 subject = [], issuer = []\<rparr>,
                                   signature = None\<rparr>\<rparr>, w1))
      else (None, w))"

definition upd_cinf :: "(x509_cinf \<Rightarrow> x509_cinf) \<Rightarrow> x509_obj \<Rightarrow> x509_obj" where
  "upd_cinf f c = c\<lparr>x509_val := (x509_val c)\<lparr>cert_info := f (cert_info (x509_val c))\<rparr>\<rparr>"

definition ASN1_INTEGER_set_serialNumber :: "env \<Rightarrow> x509_obj \<Rightarrow> int \<Rightarrow> int \<times> x509_obj" where
  \<comment> \<open>\<^verbatim>\<open>ASN1_INTEGER_set(X509_get_serialNumber(certificate), v)\<close>: 1 and the serial
      set, or 0.\<close>
  "ASN1_INTEGER_set_serialNumber env c v =
     (if asn1_integer_set_ok env then (1, upd_cinf (\<lambda>ci. ci\<lparr>serialNumber := v\<rparr>) c)
      else (0, c))"

definition X509_gmtime_adj_notBefore :: "env \<Rightarrow> x509_obj \<Rightarrow> int \<Rightarrow> bool \<times> x509_obj" where
  \<comment> \<open>\<^verbatim>\<open>X509_gmtime_adj(X509_get_notBefore(certificate), adj)\<close>: the time is set to
      what \<^verbatim>\<open>time()\<close> returns inside the call plus \<open>adj\<close>; the result is the
      pointer to the time (here: true) or null.\<close>
  "X509_gmtime_adj_notBefore env c adj =
     (if gmtime_adj_notBefore_ok env
      then (True, upd_cinf (\<lambda>ci. ci\<lparr>notBefore := Some (clock_notBefore env + adj)\<rparr>) c)
      else (False, c))"

definition X509_gmtime_adj_notAfter :: "env \<Rightarrow> x509_obj \<Rightarrow> int \<Rightarrow> bool \<times> x509_obj" where
  "X509_gmtime_adj_notAfter env c adj =
     (if gmtime_adj_notAfter_ok env
      then (True, upd_cinf (\<lambda>ci. ci\<lparr>notAfter := Some (clock_notAfter env + adj)\<rparr>) c)
      else (False, c))"

definition X509_set_pubkey :: "env \<Rightarrow> x509_obj \<Rightarrow> evp_pkey \<Rightarrow> int \<times> x509_obj" where
  "X509_set_pubkey env c pkey =
     (case pkey_key pkey of
        None \<Rightarrow> (0, c)
      | Some k \<Rightarrow>
          if x509_set_pubkey_ok env
          then (1, upd_cinf (\<lambda>ci. ci\<lparr>pubkey := Some (public_part k)\<rparr>) c)
          else (0, c))"

definition X509_NAME_add_entry_by_txt_subject ::
    "env \<Rightarrow> x509_obj \<Rightarrow> string \<Rightarrow> string \<Rightarrow> int \<times> x509_obj" where
  \<comment> \<open>On the name that \<^verbatim>\<open>X509_get_subject_name(certificate)\<close> points to.
      \<^verbatim>\<open>len = -1\<close>: the bytes up to the NUL; \<^verbatim>\<open>loc = -1\<close>: appended.\<close>
  "X509_NAME_add_entry_by_txt_subject env c field bytes =
     (if x509_name_add_entry_ok env
      then (1, upd_cinf (\<lambda>ci. ci\<lparr>subject := subject ci @ [(field, c_str bytes)]\<rparr>) c)
      else (0, c))"

definition X509_set_issuer_name_subject :: "env \<Rightarrow> x509_obj \<Rightarrow> int \<times> x509_obj" where
  \<comment> \<open>\<^verbatim>\<open>X509_set_issuer_name(certificate, subjectName)\<close>\<close>
  "X509_set_issuer_name_subject env c =
     (if x509_set_issuer_name_ok env
      then (1, upd_cinf (\<lambda>ci. ci\<lparr>issuer := subject ci\<rparr>) c)
      else (0, c))"

definition X509_sign :: "env \<Rightarrow> x509_obj \<Rightarrow> evp_pkey \<Rightarrow> digest \<Rightarrow> bool \<times> x509_obj" where
  "X509_sign env c pkey md =
     (case pkey_key pkey of
        None \<Rightarrow> (False, c)
      | Some k \<Rightarrow>
          if x509_sign_ok env
          then (True, c\<lparr>x509_val := (x509_val c)\<lparr>signature :=
                          Some \<lparr>sig_md = md, sig_key = public_part k,
                                sig_over = cert_info (x509_val c)\<rparr>\<rparr>\<rparr>)
          else (False, c))"

text \<open>
  Files. \<^verbatim>\<open>fopen(path, "wb")\<close> creates or truncates the file. The PEM writers fill
  the stream's buffer; \<^verbatim>\<open>fclose\<close> writes the buffer to the file, and when that
  flush fails the file keeps what it held after the truncation.
\<close>

record stream =
  stream_path :: path
  stream_buf :: "file_content option"

definition fopen_wb :: "path \<Rightarrow> world \<Rightarrow> stream option \<times> world" where
  "fopen_wb p w =
     (if writable w p
      then (Some \<lparr>stream_path = p, stream_buf = None\<rparr>,
            w\<lparr>files := (files w)(p \<mapsto> Raw []), io_trace := io_trace w @ [Fopen p]\<rparr>)
      else (None, w))"

definition PEM_write_PrivateKey :: "env \<Rightarrow> stream \<Rightarrow> evp_pkey \<Rightarrow> int \<times> stream" where
  "PEM_write_PrivateKey env f pkey =
     (case pkey_key pkey of
        None \<Rightarrow> (0, f)
      | Some k \<Rightarrow>
          if pem_key_ok env then (1, f\<lparr>stream_buf := Some (PEM_PrivateKey k)\<rparr>) else (0, f))"

definition PEM_write_X509 :: "env \<Rightarrow> stream \<Rightarrow> x509_obj \<Rightarrow> int \<times> stream" where
  "PEM_write_X509 env f c =
     (if pem_cert_ok env then (1, f\<lparr>stream_buf := Some (PEM_X509 (x509_val c))\<rparr>) else (0, f))"

definition fclose :: "bool \<Rightarrow> stream \<Rightarrow> world \<Rightarrow> world" where
  \<comment> \<open>The first argument: whether the flush succeeds.\<close>
  "fclose flush_ok f w =
     (case stream_buf f of
        None \<Rightarrow> w\<lparr>io_trace := io_trace w @ [Fclose (stream_path f)]\<rparr>
      | Some c \<Rightarrow>
          if flush_ok
          then w\<lparr>files := (files w)(stream_path f \<mapsto> c),
                 io_trace := io_trace w @ [Fwrite (stream_path f) c, Fclose (stream_path f)]\<rparr>
          else w\<lparr>io_trace := io_trace w @ [Fclose (stream_path f)]\<rparr>)"

subsection \<open>The functions of enable\_ssl.c\<close>

definition EnsureReleaseOpenSSLResource :: "free_fn \<Rightarrow> nat \<Rightarrow> world \<Rightarrow> world" where
  "EnsureReleaseOpenSSLResource free arg w = MemoryContextRegisterResetCallback (free, arg) w"

definition ShouldUseAutoSSL :: "world \<Rightarrow> bool \<times> world" where
  "ShouldUseAutoSSL w =
     (let sslmode = GetConnParam_sslmode w
      in if strcmp sslmode ''require'' = 0 then (True, w) else (False, w))"

text \<open>
  The three functions below end every failing branch with \<^verbatim>\<open>ereport(ERROR, ...)\<close>
  followed by \<^verbatim>\<open>return NULL\<close> (or \<^verbatim>\<open>return false\<close>); the error is raised, so the
  return after it is never reached. Their results still have the type the source
  gives them (a pointer that may be null, a bool), because the caller tests them.
  \<open>CreateCertificate\<close> takes the certificate from each setter and drops the status
  (\<open>snd\<close>), as the source does.
\<close>

definition GeneratePrivateKey :: "env \<Rightarrow> world \<Rightarrow> (pg_error + evp_pkey option) \<times> world" where
  "GeneratePrivateKey env w =
     (case EVP_PKEY_new env w of
        (None, w1) \<Rightarrow> ereport_ERROR ''unable to allocate space for private key'' w1
      | (Some privateKey, w1) \<Rightarrow>
          (let w2 = EnsureReleaseOpenSSLResource EVP_PKEY_free (pkey_addr privateKey) w1
           in case BN_new w2 of
                (exponent, w3) \<Rightarrow>
                  (let w4 = EnsureReleaseOpenSSLResource BN_free (bn_addr exponent) w3
                   in case BN_set_word env exponent RSA_F4 of
                        (ret, exponent1) \<Rightarrow>
                          if ret \<noteq> 1
                          then ereport_ERROR ''unable to prepare exponent for RSA algorithm'' w4
                          else (case RSA_new w4 of
                                  (rsa, w5) \<Rightarrow>
                                    (case RSA_generate_key_ex env rsa 2048 exponent1 of
                                       (ret1, rsa1) \<Rightarrow>
                                         if ret1 \<noteq> 1
                                         then ereport_ERROR ''unable to generate RSA key'' w5
                                         else (case EVP_PKEY_assign_RSA env privateKey rsa1 w5 of
                                                 ((ok, privateKey1), w6) \<Rightarrow>
                                                   if \<not> ok
                                                   then ereport_ERROR
                                                          ''unable to assign RSA key to use as private key'' w6
                                                   else (Inr (Some privateKey1), w6)))))))"

definition CreateCertificate ::
    "env \<Rightarrow> evp_pkey \<Rightarrow> world \<Rightarrow> (pg_error + x509_obj option) \<times> world" where
  "CreateCertificate env privateKey w =
     (case X509_new env w of
        (None, w1) \<Rightarrow> ereport_ERROR ''unable to allocate space for the x509 certificate'' w1
      | (Some certificate, w1) \<Rightarrow>
          (let w2 = EnsureReleaseOpenSSLResource X509_free (x509_addr certificate) w1;
               c1 = snd (ASN1_INTEGER_set_serialNumber env certificate 1);
               c2 = snd (X509_gmtime_adj_notBefore env c1 0);
               c3 = snd (X509_gmtime_adj_notAfter env c2 0);
               c4 = snd (X509_set_pubkey env c3 privateKey);
               c5 = snd (X509_NAME_add_entry_by_txt_subject env c4 X509_SUBJECT_COMMON_NAME
                           CITUS_AUTO_SSL_COMMON_NAME);
               c6 = snd (X509_set_issuer_name_subject env c5)
           in case X509_sign env c6 privateKey SHA256 of
                (ok, c7) \<Rightarrow>
                  if \<not> ok
                  then ereport_ERROR ''unable to create signature for the x509 certificate'' w2
                  else (Inr (Some c7), w2)))"

definition StoreCertificate ::
    "env \<Rightarrow> evp_pkey \<Rightarrow> x509_obj \<Rightarrow> world \<Rightarrow> (pg_error + bool) \<times> world" where
  "StoreCertificate env privateKey certificate w =
     (let privateKeyFilename = ssl_key_file w;
          certificateFilename = ssl_cert_file w
      in case fopen_wb privateKeyFilename w of
           (None, w1) \<Rightarrow>
             ereport_ERROR (''unable to open private key file ''
                            @ [CHR 0x27] @ privateKeyFilename @ [CHR 0x27] @ '' for writing'') w1
         | (Some privateKeyFile, w1) \<Rightarrow>
             (case PEM_write_PrivateKey env privateKeyFile privateKey of
                (success, privateKeyFile1) \<Rightarrow>
                  (let w2 = fclose (key_fclose_ok env) privateKeyFile1 w1
                   in if success = 0
                      then ereport_ERROR ''unable to store private key'' w2
                      else (case fopen_wb certificateFilename w2 of
                              (None, w3) \<Rightarrow>
                                ereport_ERROR (''unable to open certificate file ''
                                               @ [CHR 0x27] @ certificateFilename @ [CHR 0x27]
                                               @ '' for writing'') w3
                            | (Some certificateFile, w3) \<Rightarrow>
                                (case PEM_write_X509 env certificateFile certificate of
                                   (success1, certificateFile1) \<Rightarrow>
                                     (let w4 = fclose (cert_fclose_ok env) certificateFile1 w3
                                      in if success1 = 0
                                         then ereport_ERROR ''unable to store certificate'' w4
                                         else (Inr True, w4)))))))"

definition CreateCertificatesWhenNeeded :: "env \<Rightarrow> world \<Rightarrow> (pg_error + bool) \<times> world" where
  "CreateCertificatesWhenNeeded env w =
     (let w0 = OPENSSL_init_ssl w
      in case SSL_CTX_new env w0 of
           (None, w1) \<Rightarrow> (Inr False, w1)
         | (Some sslContext, w1) \<Rightarrow>
             (let w2 = EnsureReleaseOpenSSLResource SSL_CTX_free sslContext w1
              in if SSL_CTX_use_certificate_chain_file (ssl_cert_file w2) w2 = 1
                 then (Inr False, w2)
                 else (let w3 = elog LOG
                                  ''no certificate present, generating self signed certificate'' w2
                       in case GeneratePrivateKey env w3 of
                            (Inl e, w4) \<Rightarrow> (Inl e, w4)
                          | (Inr None, w4) \<Rightarrow>
                              ereport_ERROR ''error while generating private key'' w4
                          | (Inr (Some privateKey), w4) \<Rightarrow>
                              (case CreateCertificate env privateKey w4 of
                                 (Inl e, w5) \<Rightarrow> (Inl e, w5)
                               | (Inr None, w5) \<Rightarrow>
                                   ereport_ERROR ''error while generating certificate'' w5
                               | (Inr (Some certificate), w5) \<Rightarrow>
                                   (case StoreCertificate env privateKey certificate w5 of
                                      (Inl e, w6) \<Rightarrow> (Inl e, w6)
                                    | (Inr certificateWritten, w6) \<Rightarrow>
                                        if \<not> certificateWritten
                                        then ereport_ERROR
                                               ''error while storing key and certificate'' w6
                                        else (Inr True, w6))))))"

definition reload_configuration :: "world \<Rightarrow> (pg_error + unit) \<times> world" where
  \<comment> \<open>\<^verbatim>\<open>DirectFunctionCall0(pg_reload_conf); ProcessConfigFile(PGC_SIGHUP);\<close>\<close>
  "reload_configuration w =
     (case DirectFunctionCall0 pg_reload_conf w of
        (Inl e, w1) \<Rightarrow> (Inl e, w1)
      | (Inr _, w1) \<Rightarrow> (Inr (), ProcessConfigFile_SIGHUP w1))"

definition citus_setup_ssl :: "build \<Rightarrow> env \<Rightarrow> world \<Rightarrow> (pg_error + unit) \<times> world" where
  "citus_setup_ssl b env w =
     (if \<not> USE_SSL b
      then (Inr (), elog WARNING
                      ''can not setup ssl on postgres that is not compiled with ssl support'' w)
      else if EnableSSL w then (Inr (), w)
      else (case ShouldUseAutoSSL w of
              (False, w1) \<Rightarrow> (Inr (), w1)
            | (True, w1) \<Rightarrow>
                (let w2 = elog LOG (''citus extension created on postgres without ssl enabled, ''
                                    @ ''turning it on during creation of the extension'') w1
                 in case alter_system ENABLE_SSL_QUERY w2 of
                      (Inl e, w3) \<Rightarrow> (Inl e, w3)
                    | (Inr _, w3) \<Rightarrow>
                        (case CreateCertificatesWhenNeeded env w3 of
                           (Inl e, w4) \<Rightarrow> (Inl e, w4)
                         | (Inr _, w4) \<Rightarrow>
                             if 100000 \<le> PG_VERSION_NUM b
                             then reload_configuration w4
                             else (Inr (), elog WARNING ''restart of postgres required'' w4)))))"

definition citus_reset_default_for_node_conninfo :: "world \<Rightarrow> (pg_error + unit) \<times> world" where
  "citus_reset_default_for_node_conninfo w =
     (let w1 = elog LOG (''reset citus.node_conninfo to old default value as the new value is ''
                         @ ''incompatible with the current ssl setting'') w
      in case alter_system RESET_CITUS_NODE_CONNINFO w1 of
           (Inl e, w2) \<Rightarrow> (Inl e, w2)
         | (Inr _, w2) \<Rightarrow> reload_configuration w2)"

subsection \<open>Example inputs\<close>

definition fresh_node :: world where
  "fresh_node = \<lparr>EnableSSL = False, conn_sslmode = ''require'',
      ssl_key_file = ''server.key'', ssl_cert_file = ''server.crt'',
      files = Map.empty, writable = (\<lambda>p. True), min_rsa_bits = 2048, io_trace = [],
      auto_conf = Map.empty, reload_requests = 0, config_processed = 0,
      server_log = [], openssl_initialized = False, next_addr = 1,
      allocated = [], callbacks = [], assigned = [], released = []\<rparr>"

definition all_ok :: env where
  "all_ok = \<lparr>ssl_ctx_new_ok = True, evp_pkey_new_ok = True, bn_set_word_ok = True,
      rsa_generate_ok = True, rsa_fresh = 7, evp_assign_ok = True, x509_new_ok = True,
      asn1_integer_set_ok = True,
      gmtime_adj_notBefore_ok = True, clock_notBefore = 1540000000,
      gmtime_adj_notAfter_ok = True, clock_notAfter = 1540000000,
      x509_set_pubkey_ok = True, x509_name_add_entry_ok = True,
      x509_set_issuer_name_ok = True, x509_sign_ok = True,
      pem_key_ok = True, key_fclose_ok = True, pem_cert_ok = True, cert_fclose_ok = True\<rparr>"

definition pg10 :: build where
  "pg10 = \<lparr>USE_SSL = True, PG_VERSION_NUM = 100005\<rparr>"

definition test_key :: evp_pkey where
  "test_key = \<lparr>pkey_addr = 2, pkey_rsa =
      Some \<lparr>rsa_addr = 4, rsa_key = Some \<lparr>rsa_bits = 2048, rsa_e = 65537, rsa_secret = 7\<rparr>\<rparr>\<rparr>"

definition returned_certificate :: "(pg_error + x509_obj option) \<times> world \<Rightarrow> x509 option" where
  "returned_certificate r =
     (case fst r of Inr (Some c) \<Rightarrow> Some (x509_val c) | _ \<Rightarrow> None)"

definition validity :: "x509 \<Rightarrow> int option \<times> int option" where
  "validity c = (notBefore (cert_info c), notAfter (cert_info c))"

definition operator_certificate :: x509 where
  "operator_certificate =
     \<lparr>cert_info = \<lparr>serialNumber = 4711, notBefore = Some 1500000000,
                    notAfter = Some 1800000000,
                    pubkey = Some \<lparr>pub_bits = 4096, pub_e = 65537, pub_of = 99\<rparr>,
                    subject = [(''CN'', ''db1.example.org'')],
                    issuer = [(''CN'', ''Example CA'')]\<rparr>,
      signature = None\<rparr>"

definition provisioned_node :: world where
  "provisioned_node = fresh_node\<lparr>files := [''server.crt'' \<mapsto> PEM_X509 operator_certificate]\<rparr>"

definition weak_certificate :: x509 where
  "weak_certificate =
     \<lparr>cert_info = \<lparr>serialNumber = 12, notBefore = Some 1500000000,
                    notAfter = Some 1800000000,
                    pubkey = Some \<lparr>pub_bits = 512, pub_e = 65537, pub_of = 33\<rparr>,
                    subject = [(''CN'', ''db1.example.org'')],
                    issuer = [(''CN'', ''db1.example.org'')]\<rparr>,
      signature = None\<rparr>"

definition weak_certificate_node :: world where
  "weak_certificate_node = fresh_node\<lparr>files := [''server.crt'' \<mapsto> PEM_X509 weak_certificate]\<rparr>"

definition readonly_node :: world where
  "readonly_node = fresh_node\<lparr>writable := (\<lambda>p. False)\<rparr>"

definition key_only_node :: world where
  "key_only_node = fresh_node\<lparr>writable := (\<lambda>p. p = ''server.key'')\<rparr>"

definition tls_active_node :: world where
  "tls_active_node = fresh_node\<lparr>EnableSSL := True\<rparr>"

definition prefer_node :: world where
  "prefer_node = fresh_node\<lparr>conn_sslmode := ''prefer''\<rparr>"

definition test_certificate :: x509_obj where
  "test_certificate = \<lparr>x509_addr = 5, x509_val = operator_certificate\<rparr>"

definition no_context :: env where
  "no_context = all_ok\<lparr>ssl_ctx_new_ok := False\<rparr>"

definition rsa_generation_fails :: env where
  "rsa_generation_fails = all_ok\<lparr>rsa_generate_ok := False\<rparr>"

definition key_flush_fails :: env where
  "key_flush_fails = all_ok\<lparr>key_fclose_ok := False\<rparr>"

definition cert_flush_fails :: env where
  "cert_flush_fails = all_ok\<lparr>cert_fclose_ok := False\<rparr>"

definition second_run :: env where
  "second_run = all_ok\<lparr>rsa_fresh := 8\<rparr>"

definition after_first_call :: world where
  "after_first_call = snd (CreateCertificatesWhenNeeded cert_flush_fails fresh_node)"

definition serial_not_set :: env where
  "serial_not_set = all_ok\<lparr>asn1_integer_set_ok := False\<rparr>"

text \<open>What the environment must grant for the generation and for the PEM encoding.\<close>

definition generation_succeeds :: "env \<Rightarrow> bool" where
  "generation_succeeds env =
     (evp_pkey_new_ok env \<and> bn_set_word_ok env \<and> rsa_generate_ok env \<and> evp_assign_ok env \<and>
      x509_new_ok env \<and> x509_sign_ok env)"

definition setters_succeed :: "env \<Rightarrow> bool" where
  \<comment> \<open>The calls of \<open>CreateCertificate\<close> whose status the source discards.\<close>
  "setters_succeed env =
     (asn1_integer_set_ok env \<and> gmtime_adj_notBefore_ok env \<and> gmtime_adj_notAfter_ok env \<and>
      x509_set_pubkey_ok env \<and> x509_name_add_entry_ok env \<and> x509_set_issuer_name_ok env)"

definition write_succeeds :: "env \<Rightarrow> bool" where
  "write_succeeds env =
     (pem_key_ok env \<and> key_fclose_ok env \<and> pem_cert_ok env \<and> cert_fclose_ok env)"

text \<open>
  The file operations that a call added to the trace, and the order the claims speak
  of: before the key file is closed, no operation is on the certificate file.
\<close>

definition path_of :: "io_event \<Rightarrow> path" where
  "path_of e = (case e of Fopen p \<Rightarrow> p | Fwrite p c \<Rightarrow> p | Fclose p \<Rightarrow> p)"


definition new_events :: "world \<Rightarrow> world \<Rightarrow> io_event list" where
  "new_events w w' = drop (length (io_trace w)) (io_trace w')"

section \<open>Properties\<close>

lemmas world_defs = elog_def ereport_ERROR_def new_object_def
  EnsureReleaseOpenSSLResource_def MemoryContextRegisterResetCallback_def

lemmas keygen_defs = EVP_PKEY_new_def BN_new_def BN_set_word_def RSA_new_def
  RSA_generate_key_ex_def EVP_PKEY_assign_RSA_def

lemmas x509_defs = X509_new_def upd_cinf_def ASN1_INTEGER_set_serialNumber_def
  X509_gmtime_adj_notBefore_def X509_gmtime_adj_notAfter_def X509_set_pubkey_def
  X509_NAME_add_entry_by_txt_subject_def X509_set_issuer_name_subject_def X509_sign_def
  X509_SUBJECT_COMMON_NAME_def CITUS_AUTO_SSL_COMMON_NAME_def

lemmas file_defs = fopen_wb_def PEM_write_PrivateKey_def PEM_write_X509_def fclose_def

lemmas example_defs = fresh_node_def all_ok_def pg10_def test_key_def
  operator_certificate_def provisioned_node_def readonly_node_def key_only_node_def
  tls_active_node_def prefer_node_def test_certificate_def no_context_def
  rsa_generation_fails_def key_flush_fails_def cert_flush_fails_def second_run_def
  serial_not_set_def weak_certificate_def weak_certificate_node_def

lemma of_char_eq_0_iff: "(of_char c = (0::nat)) \<longleftrightarrow> c = NUL"
proof -
  have "(of_char c = (0::nat)) \<longleftrightarrow> (of_char c = (of_char NUL :: nat))"
    by (simp add: NUL_def)
  also have "\<dots> \<longleftrightarrow> c = NUL" by (simp only: of_char_eq_iff)
  finally show ?thesis .
qed

lemma strcmp_eq_0_iff: "strcmp a b = 0 \<longleftrightarrow> c_str a = c_str b"
  by (induction a b rule: strcmp.induct) (auto simp: c_str_def of_char_eq_0_iff)

lemma c_str_require: "c_str ''require'' = ''require''"
  by (simp add: c_str_def NUL_def)

lemma c_str_common_name: "c_str ''citus-auto-ssl'' = ''citus-auto-ssl''"
  by (simp add: c_str_def NUL_def)

lemma ShouldUseAutoSSL_eq:
  "ShouldUseAutoSSL w = (c_str (conn_sslmode w) = ''require'', w)"
  by (simp add: ShouldUseAutoSSL_def GetConnParam_sslmode_def strcmp_eq_0_iff c_str_require)

text \<open>
  Claim C2. For every value of the security-mode string, \<open>ShouldUseAutoSSL\<close> returns
  true if and only if the string is exactly "require", and it changes nothing: the
  world it leaves is the world it was given. The string is the C string at the
  pointer that the connection-parameter reader returns.
\<close>

theorem ShouldUseAutoSSL_iff_require:
  "fst (ShouldUseAutoSSL w) = (c_str (conn_sslmode w) = ''require'') \<and>
   snd (ShouldUseAutoSSL w) = w"
  by (simp add: ShouldUseAutoSSL_def GetConnParam_sslmode_def strcmp_eq_0_iff c_str_require)

lemma GeneratePrivateKey_cases:
  "GeneratePrivateKey env w = (res, w') \<Longrightarrow>
     files w' = files w \<and> io_trace w' = io_trace w \<and> writable w' = writable w \<and>
     ssl_key_file w' = ssl_key_file w \<and> ssl_cert_file w' = ssl_cert_file w \<and>
     auto_conf w' = auto_conf w \<and> reload_requests w' = reload_requests w \<and>
     config_processed w' = config_processed w \<and>
     (case res of
        Inl e \<Rightarrow> \<not> (evp_pkey_new_ok env \<and> bn_set_word_ok env \<and> rsa_generate_ok env \<and> evp_assign_ok env)
      | Inr r \<Rightarrow>
          evp_pkey_new_ok env \<and> bn_set_word_ok env \<and> rsa_generate_ok env \<and> evp_assign_ok env \<and>
          (\<exists>pkey. r = Some pkey \<and>
             pkey_key pkey = Some \<lparr>rsa_bits = 2048, rsa_e = 65537, rsa_secret = rsa_fresh env\<rparr>))"
  by (auto simp: GeneratePrivateKey_def keygen_defs world_defs pkey_key_def RSA_F4_def Let_def
           split: if_splits prod.splits option.splits)

text \<open>
  Claim C5. Every key that \<open>GeneratePrivateKey\<close> returns is an RSA key of exactly
  2048 bits with public exponent 65537, whatever the environment and the world: the
  function has no parameter that could change either. (It also never returns a null
  pointer: every failure raises.)
\<close>

theorem GeneratePrivateKey_rsa_2048_f4:
  "GeneratePrivateKey env w = (Inr r, w') \<Longrightarrow>
     \<exists>pkey k. r = Some pkey \<and> pkey_key pkey = Some k \<and> rsa_bits k = 2048 \<and> rsa_e k = 65537"
  using GeneratePrivateKey_cases [of env w "Inr r" w'] by fastforce

theorem GeneratePrivateKey_rsa_2048_f4_witness:
  "\<exists>r w'. GeneratePrivateKey all_ok fresh_node = (Inr r, w') \<and>
     (\<exists>pkey k. r = Some pkey \<and> pkey_key pkey = Some k \<and> rsa_bits k = 2048 \<and> rsa_e k = 65537)"
proof -
  obtain r w' where h: "GeneratePrivateKey all_ok fresh_node = (Inr r, w')"
    by (simp add: GeneratePrivateKey_def keygen_defs world_defs example_defs Let_def)
  from GeneratePrivateKey_rsa_2048_f4 [OF h] h show ?thesis by blast
qed

lemma pubkey_after_setters [simp]:
  "pubkey (cert_info (x509_val (snd (ASN1_INTEGER_set_serialNumber env c v))))
     = pubkey (cert_info (x509_val c))"
  "pubkey (cert_info (x509_val (snd (X509_gmtime_adj_notBefore env c adj))))
     = pubkey (cert_info (x509_val c))"
  "pubkey (cert_info (x509_val (snd (X509_gmtime_adj_notAfter env c adj))))
     = pubkey (cert_info (x509_val c))"
  "pubkey (cert_info (x509_val (snd (X509_NAME_add_entry_by_txt_subject env c field bytes))))
     = pubkey (cert_info (x509_val c))"
  "pubkey (cert_info (x509_val (snd (X509_set_issuer_name_subject env c))))
     = pubkey (cert_info (x509_val c))"
  by (simp_all add: ASN1_INTEGER_set_serialNumber_def X509_gmtime_adj_notBefore_def
        X509_gmtime_adj_notAfter_def X509_NAME_add_entry_by_txt_subject_def
        X509_set_issuer_name_subject_def upd_cinf_def)

lemma pubkey_after_set_pubkey [simp]:
  "pkey_key pkey = Some k \<Longrightarrow>
     pubkey (cert_info (x509_val (snd (X509_set_pubkey env c pkey))))
       = (if x509_set_pubkey_ok env then Some (public_part k)
          else pubkey (cert_info (x509_val c)))"
  by (simp add: X509_set_pubkey_def upd_cinf_def)

lemma CreateCertificate_cases:
  "CreateCertificate env privateKey w = (res, w') \<Longrightarrow>
     files w' = files w \<and> io_trace w' = io_trace w \<and> writable w' = writable w \<and>
     ssl_key_file w' = ssl_key_file w \<and> ssl_cert_file w' = ssl_cert_file w \<and>
     auto_conf w' = auto_conf w \<and> reload_requests w' = reload_requests w \<and>
     config_processed w' = config_processed w \<and>
     (case res of
        Inl e \<Rightarrow> \<not> (x509_new_ok env \<and> x509_sign_ok env \<and> pkey_key privateKey \<noteq> None)
      | Inr r \<Rightarrow>
          x509_new_ok env \<and> x509_sign_ok env \<and>
          (case r of
             None \<Rightarrow> False
           | Some c \<Rightarrow>
               (case pkey_key privateKey of
                  None \<Rightarrow> False
                | Some k \<Rightarrow>
                    pubkey (cert_info (x509_val c))
                      = (if x509_set_pubkey_ok env then Some (public_part k) else None) \<and>
                    signature (x509_val c) =
                      Some \<lparr>sig_md = SHA256, sig_key = public_part k,
                            sig_over = cert_info (x509_val c)\<rparr>)))"
  by (auto simp: CreateCertificate_def X509_new_def X509_sign_def world_defs Let_def
           split: if_splits prod.splits option.splits)

lemma CreateCertificate_fields:
  assumes "setters_succeed env" and "pkey_key privateKey = Some k"
  shows "CreateCertificate env privateKey w = (Inr (Some c), w') \<Longrightarrow>
     cert_info (x509_val c) =
       \<lparr>serialNumber = 1, notBefore = Some (clock_notBefore env),
        notAfter = Some (clock_notAfter env), pubkey = Some (public_part k),
        subject = [(''CN'', ''citus-auto-ssl'')], issuer = [(''CN'', ''citus-auto-ssl'')]\<rparr>"
  using assms
  by (auto simp: setters_succeed_def CreateCertificate_def x509_defs world_defs
                 c_str_common_name Let_def
           split: if_splits prod.splits option.splits)

text \<open>
  Claim C4, amended. In every run of \<open>CreateCertificate\<close> in which the calls that set
  the fields succeed (the six calls whose status the source discards), the certificate
  it returns has serial number 1, issuer equal to subject, subject common name
  "citus-auto-ssl", carries the public part of the given key and is signed with SHA-256
  by that key, so that it verifies against it. Its not-before is the clock as read when
  not-before is set and its not-after is the clock as read when not-after is set, a
  second reading; the two are equal when the clock has not advanced between the
  readings. What is returned when one of the six calls fails is not part of the
  statement.
\<close>

theorem CreateCertificate_self_signed:
  "CreateCertificate env privateKey w = (Inr r, w') \<Longrightarrow> setters_succeed env \<Longrightarrow>
     \<exists>c k. r = Some c \<and> pkey_key privateKey = Some k \<and>
       serialNumber (cert_info (x509_val c)) = 1 \<and>
       notBefore (cert_info (x509_val c)) = Some (clock_notBefore env) \<and>
       notAfter (cert_info (x509_val c)) = Some (clock_notAfter env) \<and>
       (clock_notBefore env = clock_notAfter env \<longrightarrow>
          notBefore (cert_info (x509_val c)) = notAfter (cert_info (x509_val c))) \<and>
       issuer (cert_info (x509_val c)) = subject (cert_info (x509_val c)) \<and>
       map_of (subject (cert_info (x509_val c))) X509_SUBJECT_COMMON_NAME
         = Some CITUS_AUTO_SSL_COMMON_NAME \<and>
       pubkey (cert_info (x509_val c)) = Some (public_part k) \<and>
       map_option sig_md (signature (x509_val c)) = Some SHA256 \<and>
       map_option sig_key (signature (x509_val c)) = Some (public_part k) \<and>
       X509_verify (x509_val c) (public_part k)"
proof -
  assume h: "CreateCertificate env privateKey w = (Inr r, w')" and s: "setters_succeed env"
  from CreateCertificate_cases [OF h] obtain c k where
    r: "r = Some c" and k: "pkey_key privateKey = Some k"
    and g: "signature (x509_val c) =
       Some \<lparr>sig_md = SHA256, sig_key = public_part k, sig_over = cert_info (x509_val c)\<rparr>"
    by (auto split: option.splits)
  from CreateCertificate_fields [OF s k h [unfolded r]]
  have "cert_info (x509_val c) =
       \<lparr>serialNumber = 1, notBefore = Some (clock_notBefore env),
        notAfter = Some (clock_notAfter env), pubkey = Some (public_part k),
        subject = [(''CN'', ''citus-auto-ssl'')], issuer = [(''CN'', ''citus-auto-ssl'')]\<rparr>" .
  with r k g show ?thesis
    by (simp add: X509_verify_def X509_SUBJECT_COMMON_NAME_def CITUS_AUTO_SSL_COMMON_NAME_def)
qed

theorem CreateCertificate_self_signed_witness:
  "\<exists>r w'. CreateCertificate all_ok test_key fresh_node = (Inr r, w') \<and>
     setters_succeed all_ok \<and>
     clock_notBefore all_ok = clock_notAfter all_ok \<and>
     (\<exists>c. r = Some c \<and>
        serialNumber (cert_info (x509_val c)) = 1 \<and>
        notBefore (cert_info (x509_val c)) = notAfter (cert_info (x509_val c)) \<and>
        issuer (cert_info (x509_val c)) = subject (cert_info (x509_val c)) \<and>
        X509_verify (x509_val c) (the (map_option public_part (pkey_key test_key))))"
proof -
  obtain r w' where h: "CreateCertificate all_ok test_key fresh_node = (Inr r, w')"
    by (simp add: CreateCertificate_def x509_defs world_defs example_defs pkey_key_def Let_def)
  have s: "setters_succeed all_ok"
    by (simp add: setters_succeed_def all_ok_def)
  have t: "clock_notBefore all_ok = clock_notAfter all_ok"
    by (simp add: all_ok_def)
  from CreateCertificate_self_signed [OF h s] obtain c k where
    "r = Some c" "pkey_key test_key = Some k"
    "serialNumber (cert_info (x509_val c)) = 1"
    "clock_notBefore all_ok = clock_notAfter all_ok \<longrightarrow>
       notBefore (cert_info (x509_val c)) = notAfter (cert_info (x509_val c))"
    "issuer (cert_info (x509_val c)) = subject (cert_info (x509_val c))"
    "X509_verify (x509_val c) (public_part k)"
    by blast
  with h s t show ?thesis
    by simp
qed

text \<open>
  The claim as first stated asks for not-before = not-after. The source sets them with
  two calls of \<^verbatim>\<open>X509_gmtime_adj(..., 0)\<close>, each of which reads the clock; when the
  second of the clock ticks over between them the certificate is valid for one second.
\<close>

theorem zero_validity_counterexample:
  "map_option validity
     (returned_certificate
        (CreateCertificate (all_ok\<lparr>clock_notAfter := 1540000001\<rparr>) test_key fresh_node))
   = Some (Some 1540000000, Some 1540000001)"
  by (simp add: returned_certificate_def validity_def CreateCertificate_def x509_defs world_defs
        example_defs pkey_key_def Let_def)


text \<open>
  The six calls are not tested. When \<^verbatim>\<open>ASN1_INTEGER_set\<close> fails, the certificate is
  signed and returned with the serial number that \<^verbatim>\<open>X509_new\<close> gave it.
\<close>

lemma unset_serial_is_signed_and_returned:
  "map_option serialNumber (map_option cert_info
     (returned_certificate (CreateCertificate serial_not_set test_key fresh_node))) = Some 0"
  by (simp add: returned_certificate_def CreateCertificate_def x509_defs world_defs
        example_defs pkey_key_def Let_def)

lemma StoreCertificate_cases:
  "StoreCertificate env privateKey certificate w = (res, w') \<Longrightarrow>
     writable w' = writable w \<and>
     ssl_key_file w' = ssl_key_file w \<and> ssl_cert_file w' = ssl_cert_file w \<and>
     auto_conf w' = auto_conf w \<and> reload_requests w' = reload_requests w \<and>
     config_processed w' = config_processed w \<and> allocated w' = allocated w \<and>
     callbacks w' = callbacks w \<and>
     (case res of
        Inl e \<Rightarrow> \<not> (writable w (ssl_key_file w) \<and> writable w (ssl_cert_file w) \<and>
                     pem_key_ok env \<and> pem_cert_ok env \<and> pkey_key privateKey \<noteq> None)
      | Inr b \<Rightarrow>
          b \<and> writable w (ssl_key_file w) \<and> writable w (ssl_cert_file w) \<and>
          pem_key_ok env \<and> pem_cert_ok env \<and>
          (\<exists>k. pkey_key privateKey = Some k \<and>
             files w' = (files w)
               (ssl_key_file w \<mapsto> (if key_fclose_ok env then PEM_PrivateKey k else Raw []),
                ssl_cert_file w \<mapsto>
                  (if cert_fclose_ok env then PEM_X509 (x509_val certificate) else Raw [])) \<and>
             io_trace w' = io_trace w
               @ [Fopen (ssl_key_file w)]
               @ (if key_fclose_ok env then [Fwrite (ssl_key_file w) (PEM_PrivateKey k)] else [])
               @ [Fclose (ssl_key_file w), Fopen (ssl_cert_file w)]
               @ (if cert_fclose_ok env
                  then [Fwrite (ssl_cert_file w) (PEM_X509 (x509_val certificate))] else [])
               @ [Fclose (ssl_cert_file w)]))"
  by (auto simp: StoreCertificate_def file_defs world_defs Let_def
           split: if_splits prod.splits option.splits)

lemma probe_after_context [simp]:
  "SSL_CTX_use_certificate_chain_file p
     (w\<lparr>openssl_initialized := i, next_addr := n, allocated := a, callbacks := c\<rparr>)
   = SSL_CTX_use_certificate_chain_file p w"
  by (simp add: SSL_CTX_use_certificate_chain_file_def
           split: option.splits file_content.splits)

lemma probe_after_enable [simp]:
  "SSL_CTX_use_certificate_chain_file p (w\<lparr>server_log := l, auto_conf := a\<rparr>)
   = SSL_CTX_use_certificate_chain_file p w"
  by (simp add: SSL_CTX_use_certificate_chain_file_def
           split: option.splits file_content.splits)

lemma CreateCertificatesWhenNeeded_present:
  "SSL_CTX_use_certificate_chain_file (ssl_cert_file w) w = 1 \<Longrightarrow>
     CreateCertificatesWhenNeeded env w = (res, w') \<Longrightarrow>
     res = Inr False \<and> files w' = files w \<and> io_trace w' = io_trace w \<and>
     filter (\<lambda>p. snd p \<noteq> K_SSL_CTX) (allocated w') = filter (\<lambda>p. snd p \<noteq> K_SSL_CTX) (allocated w)"
  by (auto simp: CreateCertificatesWhenNeeded_def SSL_CTX_new_def OPENSSL_init_ssl_def
                 world_defs Let_def
           split: if_splits prod.splits)

lemma CreateCertificatesWhenNeeded_no_context:
  "\<not> ssl_ctx_new_ok env \<Longrightarrow>
     CreateCertificatesWhenNeeded env w = (Inr False, w\<lparr>openssl_initialized := True\<rparr>)"
  by (simp add: CreateCertificatesWhenNeeded_def SSL_CTX_new_def OPENSSL_init_ssl_def)

lemma CreateCertificatesWhenNeeded_frame:
  "CreateCertificatesWhenNeeded env w = (res, w') \<Longrightarrow>
     writable w' = writable w \<and>
     ssl_key_file w' = ssl_key_file w \<and> ssl_cert_file w' = ssl_cert_file w \<and>
     auto_conf w' = auto_conf w \<and> reload_requests w' = reload_requests w \<and>
     config_processed w' = config_processed w"
  unfolding CreateCertificatesWhenNeeded_def OPENSSL_init_ssl_def SSL_CTX_new_def Let_def
  by (auto simp: world_defs
           split: if_splits prod.splits option.splits sum.splits
           dest!: GeneratePrivateKey_cases CreateCertificate_cases StoreCertificate_cases)


lemma CreateCertificatesWhenNeeded_created:
  "CreateCertificatesWhenNeeded env w = (Inr True, w') \<Longrightarrow>
     ssl_ctx_new_ok env \<and> SSL_CTX_use_certificate_chain_file (ssl_cert_file w) w \<noteq> 1 \<and>
     generation_succeeds env \<and> pem_key_ok env \<and> pem_cert_ok env \<and>
     writable w (ssl_key_file w) \<and> writable w (ssl_cert_file w) \<and>
     (\<exists>k c. k = \<lparr>rsa_bits = 2048, rsa_e = 65537, rsa_secret = rsa_fresh env\<rparr> \<and>
        (x509_set_pubkey_ok env \<longrightarrow> pubkey (cert_info c) = Some (public_part k)) \<and>
        signature c = Some \<lparr>sig_md = SHA256, sig_key = public_part k, sig_over = cert_info c\<rparr> \<and>
        files w' = (files w)
          (ssl_key_file w \<mapsto> (if key_fclose_ok env then PEM_PrivateKey k else Raw []),
           ssl_cert_file w \<mapsto> (if cert_fclose_ok env then PEM_X509 c else Raw [])) \<and>
        io_trace w' = io_trace w
          @ [Fopen (ssl_key_file w)]
          @ (if key_fclose_ok env then [Fwrite (ssl_key_file w) (PEM_PrivateKey k)] else [])
          @ [Fclose (ssl_key_file w), Fopen (ssl_cert_file w)]
          @ (if cert_fclose_ok env then [Fwrite (ssl_cert_file w) (PEM_X509 c)] else [])
          @ [Fclose (ssl_cert_file w)])"
  unfolding CreateCertificatesWhenNeeded_def OPENSSL_init_ssl_def SSL_CTX_new_def Let_def
    generation_succeeds_def
  by (auto simp: world_defs
           split: if_splits prod.splits option.splits sum.splits
           dest!: GeneratePrivateKey_cases CreateCertificate_cases StoreCertificate_cases)

lemma CreateCertificatesWhenNeeded_result:
  "CreateCertificatesWhenNeeded env w = (res, w') \<Longrightarrow>
     ssl_ctx_new_ok env \<Longrightarrow> SSL_CTX_use_certificate_chain_file (ssl_cert_file w) w \<noteq> 1 \<Longrightarrow>
     (case res of
        Inl e \<Rightarrow> \<not> (generation_succeeds env \<and> pem_key_ok env \<and> pem_cert_ok env \<and>
                     writable w (ssl_key_file w) \<and> writable w (ssl_cert_file w))
      | Inr b \<Rightarrow> b)"
  unfolding CreateCertificatesWhenNeeded_def OPENSSL_init_ssl_def SSL_CTX_new_def Let_def
    generation_succeeds_def
  by (auto simp: world_defs
           split: if_splits prod.splits option.splits sum.splits
           dest!: GeneratePrivateKey_cases CreateCertificate_cases StoreCertificate_cases)


lemmas run_defs = CreateCertificatesWhenNeeded_def GeneratePrivateKey_def CreateCertificate_def
  StoreCertificate_def OPENSSL_init_ssl_def SSL_CTX_new_def
  SSL_CTX_use_certificate_chain_file_def pkey_key_def keygen_defs x509_defs file_defs
  world_defs RSA_F4_def Let_def

lemma present_at_provisioned_node:
  "SSL_CTX_use_certificate_chain_file (ssl_cert_file provisioned_node) provisioned_node = 1 \<and>
   fst (CreateCertificatesWhenNeeded all_ok provisioned_node) = Inr False \<and>
   files (snd (CreateCertificatesWhenNeeded all_ok provisioned_node)) = files provisioned_node"
proof -
  have h: "SSL_CTX_use_certificate_chain_file (ssl_cert_file provisioned_node) provisioned_node = 1"
    by (simp add: SSL_CTX_use_certificate_chain_file_def example_defs)
  from CreateCertificatesWhenNeeded_present
         [OF h, of all_ok "fst (CreateCertificatesWhenNeeded all_ok provisioned_node)"
            "snd (CreateCertificatesWhenNeeded all_ok provisioned_node)"] h
  show ?thesis by simp
qed

text \<open>
  A certificate that parses but does not pass the security level is not "present": the
  probe fails on it and the credentials are generated over it.
\<close>

lemma small_key_certificate_is_replaced:
  "SSL_CTX_use_certificate_chain_file (ssl_cert_file weak_certificate_node) weak_certificate_node
     = 0 \<and>
   fst (CreateCertificatesWhenNeeded all_ok weak_certificate_node) = Inr True \<and>
   files (snd (CreateCertificatesWhenNeeded all_ok weak_certificate_node)) ''server.crt''
     \<noteq> Some (PEM_X509 weak_certificate)"
  by (simp add: run_defs example_defs)

text \<open>
  Claim C1 has two halves. The first holds (lemma
  \<open>CreateCertificatesWhenNeeded_present\<close> above): whenever the certificate file
  holds a certificate that loads, the function returns false, writes no file and
  allocates nothing but the probe context. The second, that a call right after a first
  call which reported new credentials reads the certificate and leaves both files as
  they are, is what the comment above \<^verbatim>\<open>CreateCertificatesWhenNeeded\<close> promises
  ("After this function it is guaranteed that certificates are in place"), and the
  source does not keep it, because \<open>StoreCertificate\<close> discards the result of
  \<^verbatim>\<open>fclose\<close>. When the flush of the certificate file fails, the first call returns
  true over an empty certificate file; the second call cannot load it, returns true
  again and writes both files anew, the key file with another key.
\<close>

theorem second_call_regenerates_after_ignored_fclose_failure:
  "fst (CreateCertificatesWhenNeeded cert_flush_fails fresh_node) = Inr True \<and>
   files after_first_call ''server.key''
     = Some (PEM_PrivateKey \<lparr>rsa_bits = 2048, rsa_e = 65537, rsa_secret = 7\<rparr>) \<and>
   files after_first_call ''server.crt'' = Some (Raw []) \<and>
   SSL_CTX_use_certificate_chain_file (ssl_cert_file after_first_call) after_first_call = 0 \<and>
   fst (CreateCertificatesWhenNeeded second_run after_first_call) = Inr True \<and>
   files (snd (CreateCertificatesWhenNeeded second_run after_first_call)) ''server.key''
     = Some (PEM_PrivateKey \<lparr>rsa_bits = 2048, rsa_e = 65537, rsa_secret = 8\<rparr>) \<and>
   files (snd (CreateCertificatesWhenNeeded second_run after_first_call)) ''server.crt''
     \<noteq> Some (Raw []) \<and>
   map path_of
     (new_events after_first_call (snd (CreateCertificatesWhenNeeded second_run after_first_call)))
     = [''server.key'', ''server.key'', ''server.key'',
        ''server.crt'', ''server.crt'', ''server.crt'']"
  by (simp add: after_first_call_def run_defs example_defs new_events_def path_of_def)

lemma ParseTreeNode_enable:
  "ParseTreeNode ENABLE_SSL_QUERY = Some (AlterSystemSet ''ssl'' ''on'')"
  by (simp add: ParseTreeNode_def ENABLE_SSL_QUERY_def unquote_def)

lemma ParseTreeNode_reset:
  "ParseTreeNode RESET_CITUS_NODE_CONNINFO
     = Some (AlterSystemSet ''citus.node_conninfo'' ''sslmode=prefer'')"
  by (simp add: ParseTreeNode_def RESET_CITUS_NODE_CONNINFO_def unquote_def)

lemma alter_system_enable:
  "alter_system ENABLE_SSL_QUERY w = (Inr (), w\<lparr>auto_conf := (auto_conf w)(''ssl'' \<mapsto> ''on'')\<rparr>)"
  by (simp add: alter_system_def ParseTreeNode_enable AlterSystemSetConfigFile_def)

lemma alter_system_reset:
  "alter_system RESET_CITUS_NODE_CONNINFO w
     = (Inr (), w\<lparr>auto_conf := (auto_conf w)(''citus.node_conninfo'' \<mapsto> ''sslmode=prefer'')\<rparr>)"
  by (simp add: alter_system_def ParseTreeNode_reset AlterSystemSetConfigFile_def)

lemma reload_configuration_eq:
  "reload_configuration w
     = (Inr (), w\<lparr>reload_requests := Suc (reload_requests w),
                   config_processed := Suc (config_processed w)\<rparr>)"
  by (simp add: reload_configuration_def DirectFunctionCall0_def DirectFunctionCall0Coll_def
        pg_reload_conf_def
        ProcessConfigFile_SIGHUP_def)

lemma citus_setup_ssl_noop:
  "EnableSSL w \<or> c_str (conn_sslmode w) \<noteq> ''require'' \<Longrightarrow>
     citus_setup_ssl b env w
       = (Inr (), if USE_SSL b then w
                  else elog WARNING
                         ''can not setup ssl on postgres that is not compiled with ssl support'' w)"
  by (auto simp: citus_setup_ssl_def ShouldUseAutoSSL_eq)

lemma citus_setup_ssl_enable:
  "USE_SSL b \<Longrightarrow> \<not> EnableSSL w \<Longrightarrow> c_str (conn_sslmode w) = ''require'' \<Longrightarrow>
     CreateCertificatesWhenNeeded env
        ((elog LOG (''citus extension created on postgres without ssl enabled, ''
                    @ ''turning it on during creation of the extension'') w)
           \<lparr>auto_conf := (auto_conf w)(''ssl'' \<mapsto> ''on'')\<rparr>) = (res, w4) \<Longrightarrow>
     citus_setup_ssl b env w
       = (case res of
            Inl e \<Rightarrow> (Inl e, w4)
          | Inr x \<Rightarrow>
              if 100000 \<le> PG_VERSION_NUM b
              then (Inr (), w4\<lparr>reload_requests := Suc (reload_requests w4),
                                config_processed := Suc (config_processed w4)\<rparr>)
              else (Inr (), elog WARNING ''restart of postgres required'' w4))"
  by (simp add: citus_setup_ssl_def ShouldUseAutoSSL_eq alter_system_enable
        reload_configuration_eq Let_def elog_def split: sum.splits)


text \<open>
  Claim C3, amended. From every state with no parseable certificate at the certificate
  path, security mode exactly "require" and TLS off, on a build with SSL support and
  PostgreSQL 10 or later, and provided that the TLS probe context is allocated, that
  key and certificate generation succeed, the binding of the public key into the
  certificate included, and that the key file and the certificate
  file are two different paths that can both be opened, encoded to and flushed,
  \<open>citus_setup_ssl\<close> returns normally with \<open>ssl = on\<close> in the stored
  configuration, the key file holding the generated key, the certificate file holding
  a certificate that carries that key's public part and verifies against it, no other
  file changed, each of the two files written exactly once, and exactly one reload
  request. And if TLS is already active, or the security mode is not "require", it
  returns normally having changed no stored setting and no file, and having requested
  no reload.
\<close>

theorem citus_setup_ssl_bootstrap:
  "(USE_SSL b \<and> 100000 \<le> PG_VERSION_NUM b \<and> \<not> EnableSSL w \<and>
    c_str (conn_sslmode w) = ''require'' \<and>
    SSL_CTX_use_certificate_chain_file (ssl_cert_file w) w \<noteq> 1 \<and>
    ssl_ctx_new_ok env \<and> generation_succeeds env \<and> x509_set_pubkey_ok env \<and>
    write_succeeds env \<and>
    writable w (ssl_key_file w) \<and> writable w (ssl_cert_file w) \<and>
    ssl_key_file w \<noteq> ssl_cert_file w \<longrightarrow>
      (\<exists>w' k c. citus_setup_ssl b env w = (Inr (), w') \<and>
         auto_conf w' ''ssl'' = Some ''on'' \<and>
         files w' = (files w)(ssl_key_file w \<mapsto> PEM_PrivateKey k, ssl_cert_file w \<mapsto> PEM_X509 c) \<and>
         pubkey (cert_info c) = Some (public_part k) \<and> X509_verify c (public_part k) \<and>
         io_trace w' = io_trace w
           @ [Fopen (ssl_key_file w), Fwrite (ssl_key_file w) (PEM_PrivateKey k),
              Fclose (ssl_key_file w),
              Fopen (ssl_cert_file w), Fwrite (ssl_cert_file w) (PEM_X509 c),
              Fclose (ssl_cert_file w)] \<and>
         reload_requests w' = Suc (reload_requests w))) \<and>
   (EnableSSL w \<or> c_str (conn_sslmode w) \<noteq> ''require'' \<longrightarrow>
      (\<exists>w'. citus_setup_ssl b env w = (Inr (), w') \<and>
         auto_conf w' = auto_conf w \<and> files w' = files w \<and> io_trace w' = io_trace w \<and>
         reload_requests w' = reload_requests w \<and>
         config_processed w' = config_processed w \<and> allocated w' = allocated w))"
proof (intro conjI impI)
  assume "EnableSSL w \<or> c_str (conn_sslmode w) \<noteq> ''require''"
  then show "\<exists>w'. citus_setup_ssl b env w = (Inr (), w') \<and>
         auto_conf w' = auto_conf w \<and> files w' = files w \<and> io_trace w' = io_trace w \<and>
         reload_requests w' = reload_requests w \<and>
         config_processed w' = config_processed w \<and> allocated w' = allocated w"
    by (simp add: citus_setup_ssl_noop elog_def)
next
  let ?w3 = "(elog LOG (''citus extension created on postgres without ssl enabled, ''
                    @ ''turning it on during creation of the extension'') w)
           \<lparr>auto_conf := (auto_conf w)(''ssl'' \<mapsto> ''on'')\<rparr>"
  let ?K = "ssl_key_file w" and ?C = "ssl_cert_file w"
  assume a: "USE_SSL b \<and> 100000 \<le> PG_VERSION_NUM b \<and> \<not> EnableSSL w \<and>
    c_str (conn_sslmode w) = ''require'' \<and>
    SSL_CTX_use_certificate_chain_file (ssl_cert_file w) w \<noteq> 1 \<and>
    ssl_ctx_new_ok env \<and> generation_succeeds env \<and> x509_set_pubkey_ok env \<and>
    write_succeeds env \<and>
    writable w (ssl_key_file w) \<and> writable w (ssl_cert_file w) \<and>
    ssl_key_file w \<noteq> ssl_cert_file w"
  obtain res w4 where r: "CreateCertificatesWhenNeeded env ?w3 = (res, w4)"
    by (cases "CreateCertificatesWhenNeeded env ?w3")
  have same: "files ?w3 = files w" "io_trace ?w3 = io_trace w" "writable ?w3 = writable w"
    "ssl_key_file ?w3 = ?K" "ssl_cert_file ?w3 = ?C" "reload_requests ?w3 = reload_requests w"
    "auto_conf ?w3 ''ssl'' = Some ''on''"
    by (simp_all add: elog_def)
  have absent: "SSL_CTX_use_certificate_chain_file (ssl_cert_file ?w3) ?w3 \<noteq> 1"
    using a by (simp add: elog_def)
  have "res = Inr True"
    using CreateCertificatesWhenNeeded_result [OF r _ absent] a same
    by (cases res) (simp_all add: write_succeeds_def)
  with r have r': "CreateCertificatesWhenNeeded env ?w3 = (Inr True, w4)"
    by simp
  from CreateCertificatesWhenNeeded_created [OF r'] a same
  obtain k c where
    c: "pubkey (cert_info c) = Some (public_part k)"
       "signature c = Some \<lparr>sig_md = SHA256, sig_key = public_part k, sig_over = cert_info c\<rparr>"
    and f: "files w4 = (files w)(?K \<mapsto> PEM_PrivateKey k, ?C \<mapsto> PEM_X509 c)"
    and t: "io_trace w4 = io_trace w
           @ [Fopen ?K, Fwrite ?K (PEM_PrivateKey k), Fclose ?K,
              Fopen ?C, Fwrite ?C (PEM_X509 c), Fclose ?C]"
    by (auto simp: write_succeeds_def)
  from CreateCertificatesWhenNeeded_frame [OF r'] same
  have g: "auto_conf w4 ''ssl'' = Some ''on''" "reload_requests w4 = reload_requests w"
    by simp_all
  have "citus_setup_ssl b env w
          = (Inr (), w4\<lparr>reload_requests := Suc (reload_requests w4),
                         config_processed := Suc (config_processed w4)\<rparr>)"
    using citus_setup_ssl_enable [OF _ _ _ r'] a by simp
  with c f t g show "\<exists>w' k c. citus_setup_ssl b env w = (Inr (), w') \<and>
         auto_conf w' ''ssl'' = Some ''on'' \<and>
         files w' = (files w)(ssl_key_file w \<mapsto> PEM_PrivateKey k, ssl_cert_file w \<mapsto> PEM_X509 c) \<and>
         pubkey (cert_info c) = Some (public_part k) \<and> X509_verify c (public_part k) \<and>
         io_trace w' = io_trace w
           @ [Fopen (ssl_key_file w), Fwrite (ssl_key_file w) (PEM_PrivateKey k),
              Fclose (ssl_key_file w),
              Fopen (ssl_cert_file w), Fwrite (ssl_cert_file w) (PEM_X509 c),
              Fclose (ssl_cert_file w)] \<and>
         reload_requests w' = Suc (reload_requests w)"
    by (simp add: X509_verify_def)
qed


lemmas setup_defs = citus_setup_ssl_def ShouldUseAutoSSL_eq alter_system_enable
  reload_configuration_eq c_str_require

theorem citus_setup_ssl_bootstrap_witness:
  "(USE_SSL pg10 \<and> 100000 \<le> PG_VERSION_NUM pg10 \<and> \<not> EnableSSL fresh_node \<and>
    c_str (conn_sslmode fresh_node) = ''require'' \<and>
    SSL_CTX_use_certificate_chain_file (ssl_cert_file fresh_node) fresh_node \<noteq> 1 \<and>
    ssl_ctx_new_ok all_ok \<and> generation_succeeds all_ok \<and> x509_set_pubkey_ok all_ok \<and>
    write_succeeds all_ok \<and>
    writable fresh_node (ssl_key_file fresh_node) \<and>
    writable fresh_node (ssl_cert_file fresh_node) \<and>
    ssl_key_file fresh_node \<noteq> ssl_cert_file fresh_node) \<and>
   fst (citus_setup_ssl pg10 all_ok fresh_node) = Inr () \<and>
   auto_conf (snd (citus_setup_ssl pg10 all_ok fresh_node)) ''ssl'' = Some ''on'' \<and>
   reload_requests (snd (citus_setup_ssl pg10 all_ok fresh_node)) = 1 \<and>
   EnableSSL tls_active_node \<and>
   fst (citus_setup_ssl pg10 all_ok tls_active_node) = Inr () \<and>
   files (snd (citus_setup_ssl pg10 all_ok tls_active_node)) = files tls_active_node \<and>
   reload_requests (snd (citus_setup_ssl pg10 all_ok tls_active_node)) = 0 \<and>
   c_str (conn_sslmode prefer_node) \<noteq> ''require'' \<and>
   fst (citus_setup_ssl pg10 all_ok prefer_node) = Inr () \<and>
   auto_conf (snd (citus_setup_ssl pg10 all_ok prefer_node)) = auto_conf prefer_node"
proof -
  have h1: "USE_SSL pg10 \<and> 100000 \<le> PG_VERSION_NUM pg10 \<and> \<not> EnableSSL fresh_node \<and>
    c_str (conn_sslmode fresh_node) = ''require'' \<and>
    SSL_CTX_use_certificate_chain_file (ssl_cert_file fresh_node) fresh_node \<noteq> 1 \<and>
    ssl_ctx_new_ok all_ok \<and> generation_succeeds all_ok \<and> x509_set_pubkey_ok all_ok \<and>
    write_succeeds all_ok \<and>
    writable fresh_node (ssl_key_file fresh_node) \<and>
    writable fresh_node (ssl_cert_file fresh_node) \<and>
    ssl_key_file fresh_node \<noteq> ssl_cert_file fresh_node"
    by (simp add: example_defs c_str_require SSL_CTX_use_certificate_chain_file_def
          generation_succeeds_def write_succeeds_def)
  have h2: "EnableSSL tls_active_node"
    by (simp add: example_defs)
  have h3: "c_str (conn_sslmode prefer_node) \<noteq> ''require''"
    by (simp add: example_defs c_str_def NUL_def)
  have z: "reload_requests fresh_node = 0" "reload_requests tls_active_node = 0"
    by (simp_all add: example_defs)
  from citus_setup_ssl_bootstrap [where b = pg10 and env = all_ok and w = fresh_node] h1
  obtain w1 where
    "citus_setup_ssl pg10 all_ok fresh_node = (Inr (), w1)" "auto_conf w1 ''ssl'' = Some ''on''"
    "reload_requests w1 = Suc (reload_requests fresh_node)"
    by blast
  with z have a: "fst (citus_setup_ssl pg10 all_ok fresh_node) = Inr ()"
    "auto_conf (snd (citus_setup_ssl pg10 all_ok fresh_node)) ''ssl'' = Some ''on''"
    "reload_requests (snd (citus_setup_ssl pg10 all_ok fresh_node)) = 1"
    by simp_all
  from citus_setup_ssl_bootstrap [where b = pg10 and env = all_ok and w = tls_active_node] h2
  obtain w2 where
    "citus_setup_ssl pg10 all_ok tls_active_node = (Inr (), w2)"
    "files w2 = files tls_active_node" "reload_requests w2 = reload_requests tls_active_node"
    by blast
  with z have b: "fst (citus_setup_ssl pg10 all_ok tls_active_node) = Inr ()"
    "files (snd (citus_setup_ssl pg10 all_ok tls_active_node)) = files tls_active_node"
    "reload_requests (snd (citus_setup_ssl pg10 all_ok tls_active_node)) = 0"
    by simp_all
  from citus_setup_ssl_bootstrap [where b = pg10 and env = all_ok and w = prefer_node] h3
  obtain w3 where
    "citus_setup_ssl pg10 all_ok prefer_node = (Inr (), w3)"
    "auto_conf w3 = auto_conf prefer_node"
    by blast
  then have c: "fst (citus_setup_ssl pg10 all_ok prefer_node) = Inr ()"
    "auto_conf (snd (citus_setup_ssl pg10 all_ok prefer_node)) = auto_conf prefer_node"
    by simp_all
  from h1 h2 h3 a b c show ?thesis
    by (intro conjI) blast+
qed

text \<open>
  The claim as first stated promises the outcome from every such state. Where the key
  file cannot be opened for writing the source raises an error instead: no key file
  and no certificate file exist afterwards and no reload is requested.
\<close>

theorem unwritable_key_file_counterexample:
  "\<not> EnableSSL readonly_node \<and> c_str (conn_sslmode readonly_node) = ''require'' \<and>
   SSL_CTX_use_certificate_chain_file (ssl_cert_file readonly_node) readonly_node = 0 \<and>
   fst (citus_setup_ssl pg10 all_ok readonly_node)
     = Inl (PgError ''unable to open private key file 'server.key' for writing'') \<and>
   files (snd (citus_setup_ssl pg10 all_ok readonly_node)) ''server.key'' = None \<and>
   files (snd (citus_setup_ssl pg10 all_ok readonly_node)) ''server.crt'' = None \<and>
   reload_requests (snd (citus_setup_ssl pg10 all_ok readonly_node)) = 0"
  by (simp add: setup_defs run_defs example_defs)

text \<open>
  Claim C10. When \<^verbatim>\<open>SSL_CTX_new\<close> returns null, \<open>CreateCertificatesWhenNeeded\<close>
  returns false without raising, having only initialised the library: no file is read
  or written and nothing is allocated. \<open>citus_setup_ssl\<close> (TLS off, mode "require",
  SSL build, PostgreSQL 10 or later) then completes normally with \<open>ssl = on\<close>
  stored and one reload requested, and the files are what they were: where there was
  no key file and no certificate file, there is none.
\<close>

theorem SSL_CTX_new_failure_is_silent:
  "\<not> ssl_ctx_new_ok env \<Longrightarrow>
     CreateCertificatesWhenNeeded env w = (Inr False, w\<lparr>openssl_initialized := True\<rparr>) \<and>
     (USE_SSL b \<and> 100000 \<le> PG_VERSION_NUM b \<and> \<not> EnableSSL w \<and>
      c_str (conn_sslmode w) = ''require'' \<longrightarrow>
        fst (citus_setup_ssl b env w) = Inr () \<and>
        auto_conf (snd (citus_setup_ssl b env w)) ''ssl'' = Some ''on'' \<and>
        reload_requests (snd (citus_setup_ssl b env w)) = Suc (reload_requests w) \<and>
        files (snd (citus_setup_ssl b env w)) = files w \<and>
        io_trace (snd (citus_setup_ssl b env w)) = io_trace w \<and>
        allocated (snd (citus_setup_ssl b env w)) = allocated w)"
  by (simp add: CreateCertificatesWhenNeeded_no_context setup_defs elog_def)

theorem SSL_CTX_new_failure_is_silent_witness:
  "\<not> ssl_ctx_new_ok no_context \<and>
   fst (CreateCertificatesWhenNeeded no_context fresh_node) = Inr False \<and>
   USE_SSL pg10 \<and> 100000 \<le> PG_VERSION_NUM pg10 \<and> \<not> EnableSSL fresh_node \<and>
   c_str (conn_sslmode fresh_node) = ''require'' \<and>
   fst (citus_setup_ssl pg10 no_context fresh_node) = Inr () \<and>
   auto_conf (snd (citus_setup_ssl pg10 no_context fresh_node)) ''ssl'' = Some ''on'' \<and>
   reload_requests (snd (citus_setup_ssl pg10 no_context fresh_node)) = 1 \<and>
   files (snd (citus_setup_ssl pg10 no_context fresh_node)) ''server.key'' = None \<and>
   files (snd (citus_setup_ssl pg10 no_context fresh_node)) ''server.crt'' = None"
proof -
  have h1: "\<not> ssl_ctx_new_ok no_context"
    by (simp add: example_defs)
  have h2: "USE_SSL pg10 \<and> 100000 \<le> PG_VERSION_NUM pg10 \<and> \<not> EnableSSL fresh_node \<and>
      c_str (conn_sslmode fresh_node) = ''require''"
    by (simp add: example_defs c_str_require)
  have z: "reload_requests fresh_node = 0" "files fresh_node = Map.empty"
    by (simp_all add: example_defs)
  from SSL_CTX_new_failure_is_silent [OF h1, of fresh_node pg10] h1 h2 z
  show ?thesis by simp
qed

text \<open>
  Claim C9. \<open>citus_reset_default_for_node_conninfo\<close> stores
  \<open>citus.node_conninfo = 'sslmode=prefer'\<close>, issues exactly one reload request and
  returns normally; it touches no file and allocates or registers no OpenSSL object.
  It does so from every state: the precondition of the claim is what the upgrade
  script checks before it calls the function.
\<close>

theorem citus_reset_default_for_node_conninfo_effect:
  "fst (citus_reset_default_for_node_conninfo w) = Inr () \<and>
   auto_conf (snd (citus_reset_default_for_node_conninfo w))
     = (auto_conf w)(''citus.node_conninfo'' \<mapsto> ''sslmode=prefer'') \<and>
   reload_requests (snd (citus_reset_default_for_node_conninfo w)) = Suc (reload_requests w) \<and>
   files (snd (citus_reset_default_for_node_conninfo w)) = files w \<and>
   io_trace (snd (citus_reset_default_for_node_conninfo w)) = io_trace w \<and>
   allocated (snd (citus_reset_default_for_node_conninfo w)) = allocated w \<and>
   callbacks (snd (citus_reset_default_for_node_conninfo w)) = callbacks w"
  by (simp add: citus_reset_default_for_node_conninfo_def alter_system_reset
        reload_configuration_eq elog_def Let_def)









text \<open>
  Claim C7 is what the comment above \<^verbatim>\<open>GeneratePrivateKey\<close> promises ("All OpenSSL
  resources created during the process are added to the memory context"), and the
  source does not keep it: the structure from \<^verbatim>\<open>RSA_new\<close> is never registered. When
  \<^verbatim>\<open>RSA_generate_key_ex\<close> fails, the error unwinds with four objects allocated and
  three callbacks registered, and the reset of the memory context releases the
  context, the key wrapper and the exponent but not the RSA structure (address 4).
\<close>

theorem RSA_structure_leaks_when_generation_fails:
  "fst (CreateCertificatesWhenNeeded rsa_generation_fails fresh_node)
     = Inl (PgError ''unable to generate RSA key'') \<and>
   allocated (snd (CreateCertificatesWhenNeeded rsa_generation_fails fresh_node))
     = [(1, K_SSL_CTX), (2, K_EVP_PKEY), (3, K_BIGNUM), (4, K_RSA)] \<and>
   callbacks (snd (CreateCertificatesWhenNeeded rsa_generation_fails fresh_node))
     = [(BN_free, 3), (EVP_PKEY_free, 2), (SSL_CTX_free, 1)] \<and>
   released (MemoryContextReset (snd (CreateCertificatesWhenNeeded rsa_generation_fails fresh_node)))
     = [3, 2, 1] \<and>
   leaked (MemoryContextReset (snd (CreateCertificatesWhenNeeded rsa_generation_fails fresh_node)))
     = [4]"
  by (simp add: run_defs example_defs MemoryContextReset_def call_free_def leaked_def)

lemma all_released_once_on_success:
  "allocated (snd (CreateCertificatesWhenNeeded all_ok fresh_node))
     = [(1, K_SSL_CTX), (2, K_EVP_PKEY), (3, K_BIGNUM), (4, K_RSA), (5, K_X509)] \<and>
   released (MemoryContextReset (snd (CreateCertificatesWhenNeeded all_ok fresh_node)))
     = [5, 3, 2, 4, 1] \<and>
   leaked (MemoryContextReset (snd (CreateCertificatesWhenNeeded all_ok fresh_node))) = []"
  by (simp add: run_defs example_defs MemoryContextReset_def call_free_def leaked_def)

text \<open>
  Claim C8 holds for every failure that the source tests, and the source does not test
  \<^verbatim>\<open>fclose\<close>. When the flush of the key file fails (a full disk: the PEM text is
  still in the stream's buffer when \<^verbatim>\<open>PEM_write_PrivateKey\<close> returns 1),
  \<open>StoreCertificate\<close> goes on, \<open>CreateCertificatesWhenNeeded\<close> returns true and
  \<open>citus_setup_ssl\<close> completes with \<open>ssl = on\<close> and a reload requested, while the
  key file is empty.
\<close>

theorem ignored_fclose_failure_is_silent:
  "fst (CreateCertificatesWhenNeeded key_flush_fails fresh_node) = Inr True \<and>
   files (snd (CreateCertificatesWhenNeeded key_flush_fails fresh_node)) ''server.key''
     = Some (Raw []) \<and>
   fst (citus_setup_ssl pg10 key_flush_fails fresh_node) = Inr () \<and>
   files (snd (citus_setup_ssl pg10 key_flush_fails fresh_node)) ''server.key'' = Some (Raw []) \<and>
   auto_conf (snd (citus_setup_ssl pg10 key_flush_fails fresh_node)) ''ssl'' = Some ''on'' \<and>
   reload_requests (snd (citus_setup_ssl pg10 key_flush_fails fresh_node)) = 1"
  by (simp add: setup_defs run_defs example_defs)

lemma tested_failures_are_fatal:
  "ssl_ctx_new_ok env \<Longrightarrow> SSL_CTX_use_certificate_chain_file (ssl_cert_file w) w \<noteq> 1 \<Longrightarrow>
   \<not> (generation_succeeds env \<and> pem_key_ok env \<and> pem_cert_ok env \<and>
      writable w (ssl_key_file w) \<and> writable w (ssl_cert_file w)) \<Longrightarrow>
     isl (fst (CreateCertificatesWhenNeeded env w))"
  using CreateCertificatesWhenNeeded_result
          [of env w "fst (CreateCertificatesWhenNeeded env w)" "snd (CreateCertificatesWhenNeeded env w)"]
    CreateCertificatesWhenNeeded_created [of env w "snd (CreateCertificatesWhenNeeded env w)"]
  by (cases "fst (CreateCertificatesWhenNeeded env w)") (auto simp: prod_eq_iff)

end
